theory Spec2Isabelle
  imports Main "HOL-Library.Word"
begin

unbundle bit_operations_syntax

section \<open>BurstFire I2C driver: data model\<close>

text \<open>
  The driver talks to ATtiny202 burst-fire controllers through the vendor's I2C master
  API. Bytes are 8-bit words; \<open>esp_err_t\<close> is the vendor's integer error code.
\<close>

type_synonym u8 = "8 word"
type_synonym esp_err_t = int
type_synonym i2c_port_t = int
type_synonym gpio_num_t = int

text \<open>Error codes of the vendor header \<open>esp_err.h\<close> that the driver names.\<close>

definition ESP_OK :: esp_err_t where "ESP_OK = 0"
definition ESP_FAIL :: esp_err_t where "ESP_FAIL = - 1"
definition ESP_ERR_INVALID_ARG :: esp_err_t where "ESP_ERR_INVALID_ARG = 258"
definition ESP_ERR_INVALID_STATE :: esp_err_t where "ESP_ERR_INVALID_STATE = 259"
definition ESP_ERR_TIMEOUT :: esp_err_t where "ESP_ERR_TIMEOUT = 263"

lemmas esp_err_defs =
  ESP_OK_def ESP_FAIL_def ESP_ERR_INVALID_ARG_def ESP_ERR_INVALID_STATE_def ESP_ERR_TIMEOUT_def

text \<open>The register map of \<open>burstfire_i2c_driver.h\<close>.\<close>

definition BURSTFIRE_REG_DUTY :: u8 where "BURSTFIRE_REG_DUTY = 0x00"
definition BURSTFIRE_REG_MAX_DUTY :: u8 where "BURSTFIRE_REG_MAX_DUTY = 0x01"
definition BURSTFIRE_REG_GRID_HZ :: u8 where "BURSTFIRE_REG_GRID_HZ = 0x02"
definition BURSTFIRE_REG_FW_MAJOR :: u8 where "BURSTFIRE_REG_FW_MAJOR = 0x10"
definition BURSTFIRE_REG_FW_MINOR :: u8 where "BURSTFIRE_REG_FW_MINOR = 0x11"
definition BURSTFIRE_REG_FW_PATCH :: u8 where "BURSTFIRE_REG_FW_PATCH = 0x12"
definition BURSTFIRE_REG_STATUS :: u8 where "BURSTFIRE_REG_STATUS = 0x13"
definition BURSTFIRE_REG_I2C_ADDR :: u8 where "BURSTFIRE_REG_I2C_ADDR = 0x14"

lemmas reg_defs =
  BURSTFIRE_REG_DUTY_def BURSTFIRE_REG_MAX_DUTY_def BURSTFIRE_REG_GRID_HZ_def
  BURSTFIRE_REG_FW_MAJOR_def BURSTFIRE_REG_FW_MINOR_def BURSTFIRE_REG_FW_PATCH_def
  BURSTFIRE_REG_STATUS_def BURSTFIRE_REG_I2C_ADDR_def

record burstfire_config_t =
  port :: i2c_port_t
  sda_pin :: gpio_num_t
  scl_pin :: gpio_num_t
  clk_speed :: "32 word"

record burstfire_device_info_t =
  address :: u8
  fw_major :: u8
  fw_minor :: u8
  fw_patch :: u8
  connected :: bool

text \<open>The vendor's bus configuration, as \<open>burstfire_init\<close> fills it in.\<close>

datatype i2c_mode_t = I2C_MODE_SLAVE | I2C_MODE_MASTER
datatype gpio_pullup_t = GPIO_PULLUP_DISABLE | GPIO_PULLUP_ENABLE

record i2c_config_t =
  mode :: i2c_mode_t
  sda_io_num :: gpio_num_t
  scl_io_num :: gpio_num_t
  sda_pullup_en :: gpio_pullup_t
  scl_pullup_en :: gpio_pullup_t
  master_clk_speed :: "32 word"

section \<open>The vendor bus driver as an environment\<close>

text \<open>
  Every call the driver makes into the vendor API is a \<open>bus_call\<close>, with the arguments
  the source passes. The write payload is the list of bytes sent (the empty list for the
  \<open>NULL\<close>, length 0 probe); the last field of the two transfer calls is the timeout in
  milliseconds handed to \<open>pdMS_TO_TICKS\<close>.
\<close>

datatype bus_call =
    I2C_param_config i2c_port_t i2c_config_t
  | I2C_driver_install i2c_port_t i2c_mode_t nat nat int
  | I2C_driver_delete i2c_port_t
  | I2C_master_write_to_device i2c_port_t u8 "u8 list" nat
  | I2C_master_write_read_device i2c_port_t u8 "u8 list" nat nat

text \<open>
  The bus is any deterministic function of the calls made so far and the current call.
  It answers with an error code and, for the write-then-read primitive with a one-byte
  read buffer, with what it stored in the buffer: \<open>None\<close> when it left the buffer alone.
\<close>

type_synonym bus = "bus_call list \<Rightarrow> bus_call \<Rightarrow> esp_err_t \<times> u8 option"

text \<open>
  The session state of the driver (\<open>g_initialized\<close>, \<open>g_port\<close>) together with the log of
  the bus calls made, which plays the role of a mock driver's call record.
\<close>

record world =
  g_initialized :: bool
  g_port :: i2c_port_t
  bus_log :: "bus_call list"

text \<open>Program start: the statics are zero-initialised and nothing was sent.\<close>

definition world0 :: world where
  "world0 = \<lparr>g_initialized = False, g_port = 0, bus_log = []\<rparr>"

definition i2c_call :: "bus \<Rightarrow> world \<Rightarrow> bus_call \<Rightarrow> esp_err_t \<times> u8 option \<times> world" where
  "i2c_call b w c =
     (fst (b (bus_log w) c), snd (b (bus_log w) c), w\<lparr>bus_log := bus_log w @ [c]\<rparr>)"

text \<open>What a one-byte read buffer holds after the primitive returned.\<close>

fun store_rx :: "u8 option \<Rightarrow> u8 \<Rightarrow> u8" where
  "store_rx None v = v"
| "store_rx (Some b) v = b"

section \<open>The ESP-IDF-only variant, \<open>burstfire_i2c_driver.c\<close>\<close>

text \<open>
  An output pointer is an option: \<open>None\<close> is \<open>NULL\<close>, \<open>Some v\<close> a pointer to an object
  that holds \<open>v\<close> before the call; the function returns what the object holds after it.
  Distinct output parameters are distinct objects.
\<close>

definition write_reg :: "bus \<Rightarrow> world \<Rightarrow> u8 \<Rightarrow> u8 \<Rightarrow> u8 \<Rightarrow> esp_err_t \<times> world" where
  "write_reg b w addr reg val =
     (let cmd = [reg, val];
          (ret, rx, w') = i2c_call b w (I2C_master_write_to_device (g_port w) addr cmd 100)
      in (ret, w'))"

definition read_reg :: "bus \<Rightarrow> world \<Rightarrow> u8 \<Rightarrow> u8 \<Rightarrow> u8 \<Rightarrow> esp_err_t \<times> u8 \<times> world" where
  "read_reg b w addr reg val =
     (let cmd = 0x80 OR reg;
          (ret, rx, w') = i2c_call b w (I2C_master_write_read_device (g_port w) addr [cmd] 1 100)
      in (ret, store_rx rx val, w'))"

definition burstfire_init :: "bus \<Rightarrow> world \<Rightarrow> burstfire_config_t option \<Rightarrow> esp_err_t \<times> world" where
  "burstfire_init b w config =
     (case config of
        None \<Rightarrow> (ESP_ERR_INVALID_ARG, w)
      | Some cfg \<Rightarrow>
          (let i2c_config = \<lparr>mode = I2C_MODE_MASTER,
                             sda_io_num = sda_pin cfg,
                             scl_io_num = scl_pin cfg,
                             sda_pullup_en = GPIO_PULLUP_ENABLE,
                             scl_pullup_en = GPIO_PULLUP_ENABLE,
                             master_clk_speed = clk_speed cfg\<rparr>;
               (ret, rx, w1) = i2c_call b w (I2C_param_config (port cfg) i2c_config)
           in if ret \<noteq> ESP_OK then (ret, w1)
              else (let (ret, rx, w2) =
                          i2c_call b w1 (I2C_driver_install (port cfg) I2C_MODE_MASTER 0 0 0)
                    in if ret \<noteq> ESP_OK then (ret, w2)
                       else (ESP_OK, w2\<lparr>g_port := port cfg, g_initialized := True\<rparr>))))"

definition burstfire_deinit :: "bus \<Rightarrow> world \<Rightarrow> esp_err_t \<times> world" where
  "burstfire_deinit b w =
     (if \<not> g_initialized w then (ESP_ERR_INVALID_STATE, w)
      else (let (ret, rx, w') = i2c_call b w (I2C_driver_delete (g_port w))
            in (ret, w'\<lparr>g_initialized := False\<rparr>)))"

definition burstfire_set_duty :: "bus \<Rightarrow> world \<Rightarrow> u8 \<Rightarrow> u8 \<Rightarrow> esp_err_t \<times> world" where
  "burstfire_set_duty b w addr duty =
     (if \<not> g_initialized w then (ESP_ERR_INVALID_STATE, w)
      else if duty > 10 then (ESP_ERR_INVALID_ARG, w)
      else write_reg b w addr BURSTFIRE_REG_DUTY duty)"

definition burstfire_get_duty ::
  "bus \<Rightarrow> world \<Rightarrow> u8 \<Rightarrow> u8 option \<Rightarrow> esp_err_t \<times> u8 option \<times> world" where
  "burstfire_get_duty b w addr duty =
     (if \<not> g_initialized w then (ESP_ERR_INVALID_STATE, duty, w)
      else if duty = None then (ESP_ERR_INVALID_ARG, duty, w)
      else (let (ret, v, w') = read_reg b w addr BURSTFIRE_REG_DUTY (the duty)
            in (ret, Some v, w')))"

definition burstfire_set_grid_60hz :: "bus \<Rightarrow> world \<Rightarrow> u8 \<Rightarrow> bool \<Rightarrow> esp_err_t \<times> world" where
  "burstfire_set_grid_60hz b w addr is_60hz =
     (if \<not> g_initialized w then (ESP_ERR_INVALID_STATE, w)
      else write_reg b w addr BURSTFIRE_REG_GRID_HZ (if is_60hz then 1 else 0))"

definition burstfire_get_status ::
  "bus \<Rightarrow> world \<Rightarrow> u8 \<Rightarrow> u8 option \<Rightarrow> esp_err_t \<times> u8 option \<times> world" where
  "burstfire_get_status b w addr status =
     (if \<not> g_initialized w then (ESP_ERR_INVALID_STATE, status, w)
      else if status = None then (ESP_ERR_INVALID_ARG, status, w)
      else (let (ret, v, w') = read_reg b w addr BURSTFIRE_REG_STATUS (the status)
            in (ret, Some v, w')))"

definition burstfire_is_connected :: "bus \<Rightarrow> world \<Rightarrow> u8 \<Rightarrow> bool \<times> world" where
  "burstfire_is_connected b w addr =
     (if \<not> g_initialized w then (False, w)
      else (let (ret, rx, w') = i2c_call b w (I2C_master_write_to_device (g_port w) addr [] 100)
            in (ret = ESP_OK, w')))"

text \<open>
  The sweep of \<open>burstfire_scan_devices\<close>: the \<open>for\<close> loop over \<open>addr\<close>, started at
  \<open>0x20\<close>. The output array is the list of the bytes it holds, its length the capacity
  the caller allocated. Storing past the end of it is undefined behaviour in C: the
  model has no result there (\<open>None\<close>).
\<close>

function scan_loop ::
  "bus \<Rightarrow> world \<Rightarrow> u8 \<Rightarrow> u8 list \<Rightarrow> u8 \<Rightarrow> (u8 list \<times> u8 \<times> world) option" where
  "scan_loop b w addr addresses count =
     (if addr \<le> 0x23 then
        (if fst (burstfire_is_connected b w addr) then
           (if unat count < length addresses
            then scan_loop b (snd (burstfire_is_connected b w addr)) (addr + 1)
                   (addresses[unat count := addr]) (count + 1)
            else None)
         else scan_loop b (snd (burstfire_is_connected b w addr)) (addr + 1) addresses count)
      else Some (addresses, count, w))"
  by pat_completeness auto
termination
proof (relation "measure (\<lambda>(b, w, addr, addresses, count). 0x24 - unat addr)")
  show "wf (measure (\<lambda>(b, w, addr, addresses, count). 0x24 - unat addr))"
    by simp
next
  fix b :: bus and w :: world and addr :: u8 and addresses :: "u8 list" and count :: u8
  assume le: "addr \<le> 0x23"
  then have "unat addr \<le> 0x23"
    by (simp add: word_le_nat_alt)
  moreover from this have "unat (addr + 1) = unat addr + 1"
    by (simp add: unat_word_ariths)
  ultimately have dec: "0x24 - unat (addr + 1) < 0x24 - unat addr"
    by simp
  show "((b, snd (burstfire_is_connected b w addr), addr + 1,
          addresses[unat count := addr], count + 1), b, w, addr, addresses, count)
        \<in> measure (\<lambda>(b, w, addr, addresses, count). 0x24 - unat addr)"
    using dec by simp
  show "((b, snd (burstfire_is_connected b w addr), addr + 1, addresses, count),
          b, w, addr, addresses, count)
        \<in> measure (\<lambda>(b, w, addr, addresses, count). 0x24 - unat addr)"
    using dec by simp
qed

declare scan_loop.simps [simp del]

definition burstfire_scan_devices ::
  "bus \<Rightarrow> world \<Rightarrow> u8 list option \<Rightarrow> u8 option
     \<Rightarrow> (esp_err_t \<times> u8 list option \<times> u8 option \<times> world) option" where
  "burstfire_scan_devices b w addresses count =
     (if \<not> g_initialized w then Some (ESP_ERR_INVALID_STATE, addresses, count, w)
      else if addresses = None \<or> count = None
           then Some (ESP_ERR_INVALID_ARG, addresses, count, w)
      else (case scan_loop b w 0x20 (the addresses) 0 of
              None \<Rightarrow> None
            | Some (addresses', count', w') \<Rightarrow>
                Some (ESP_OK, Some addresses', Some count', w')))"

definition burstfire_get_firmware_version ::
  "bus \<Rightarrow> world \<Rightarrow> u8 \<Rightarrow> u8 option \<Rightarrow> u8 option \<Rightarrow> u8 option
     \<Rightarrow> esp_err_t \<times> u8 option \<times> u8 option \<times> u8 option \<times> world" where
  "burstfire_get_firmware_version b w addr major minor patch =
     (if \<not> g_initialized w then (ESP_ERR_INVALID_STATE, major, minor, patch, w)
      else if major = None \<or> minor = None \<or> patch = None
           then (ESP_ERR_INVALID_ARG, major, minor, patch, w)
      else (let (ret, ma, w1) = read_reg b w addr BURSTFIRE_REG_FW_MAJOR (the major)
            in if ret \<noteq> ESP_OK then (ret, Some ma, minor, patch, w1)
               else (let (ret, mi, w2) = read_reg b w1 addr BURSTFIRE_REG_FW_MINOR (the minor)
                     in if ret \<noteq> ESP_OK then (ret, Some ma, Some mi, patch, w2)
                        else (let (ret, pa, w3) =
                                    read_reg b w2 addr BURSTFIRE_REG_FW_PATCH (the patch)
                              in (ret, Some ma, Some mi, Some pa, w3)))))"

definition burstfire_get_device_info ::
  "bus \<Rightarrow> world \<Rightarrow> u8 \<Rightarrow> burstfire_device_info_t option
     \<Rightarrow> esp_err_t \<times> burstfire_device_info_t option \<times> world" where
  "burstfire_get_device_info b w addr info =
     (if \<not> g_initialized w then (ESP_ERR_INVALID_STATE, info, w)
      else if info = None then (ESP_ERR_INVALID_ARG, info, w)
      else (let i1 = (the info)\<lparr>address := addr\<rparr>;
                (c, w1) = burstfire_is_connected b w addr;
                i2 = i1\<lparr>connected := c\<rparr>
            in if connected i2 then
                 (let (ret, ma, mi, pa, w2) =
                        burstfire_get_firmware_version b w1 addr
                          (Some (fw_major i2)) (Some (fw_minor i2)) (Some (fw_patch i2));
                      i3 = i2\<lparr>fw_major := the ma, fw_minor := the mi, fw_patch := the pa\<rparr>
                  in if ret \<noteq> ESP_OK then (ret, Some (i3\<lparr>connected := False\<rparr>), w2)
                     else (ESP_OK, Some i3, w2))
               else (ESP_OK, Some (i2\<lparr>fw_major := 0, fw_minor := 0, fw_patch := 0\<rparr>), w1)))"

section \<open>The dual-platform variant, \<open>burstfire_i2c_driver.cpp\<close>, ESP-IDF branch\<close>

text \<open>
  The same functions as the preprocessor leaves them when \<open>ARDUINO\<close> is not defined.
  They differ from the C file in \<open>burstfire_deinit\<close>, which returns early when
  \<open>i2c_driver_delete\<close> fails, and in the text of a log message.
\<close>

definition write_reg_cpp :: "bus \<Rightarrow> world \<Rightarrow> u8 \<Rightarrow> u8 \<Rightarrow> u8 \<Rightarrow> esp_err_t \<times> world" where
  "write_reg_cpp b w addr reg val =
     (let cmd = [reg, val];
          (ret, rx, w') = i2c_call b w (I2C_master_write_to_device (g_port w) addr cmd 100)
      in (ret, w'))"

definition read_reg_cpp :: "bus \<Rightarrow> world \<Rightarrow> u8 \<Rightarrow> u8 \<Rightarrow> u8 \<Rightarrow> esp_err_t \<times> u8 \<times> world" where
  "read_reg_cpp b w addr reg val =
     (let cmd = 0x80 OR reg;
          (ret, rx, w') = i2c_call b w (I2C_master_write_read_device (g_port w) addr [cmd] 1 100)
      in (ret, store_rx rx val, w'))"

definition burstfire_init_cpp :: "bus \<Rightarrow> world \<Rightarrow> burstfire_config_t option \<Rightarrow> esp_err_t \<times> world" where
  "burstfire_init_cpp b w config =
     (case config of
        None \<Rightarrow> (ESP_ERR_INVALID_ARG, w)
      | Some cfg \<Rightarrow>
          (let i2c_config = \<lparr>mode = I2C_MODE_MASTER,
                             sda_io_num = sda_pin cfg,
                             scl_io_num = scl_pin cfg,
                             sda_pullup_en = GPIO_PULLUP_ENABLE,
                             scl_pullup_en = GPIO_PULLUP_ENABLE,
                             master_clk_speed = clk_speed cfg\<rparr>;
               (ret, rx, w1) = i2c_call b w (I2C_param_config (port cfg) i2c_config)
           in if ret \<noteq> ESP_OK then (ret, w1)
              else (let (ret, rx, w2) =
                          i2c_call b w1 (I2C_driver_install (port cfg) I2C_MODE_MASTER 0 0 0)
                    in if ret \<noteq> ESP_OK then (ret, w2)
                       else (ESP_OK, w2\<lparr>g_port := port cfg, g_initialized := True\<rparr>))))"

definition burstfire_deinit_cpp :: "bus \<Rightarrow> world \<Rightarrow> esp_err_t \<times> world" where
  "burstfire_deinit_cpp b w =
     (if \<not> g_initialized w then (ESP_ERR_INVALID_STATE, w)
      else (let (ret, rx, w') = i2c_call b w (I2C_driver_delete (g_port w))
            in if ret \<noteq> ESP_OK then (ret, w')
               else (ESP_OK, w'\<lparr>g_initialized := False\<rparr>)))"

definition burstfire_set_duty_cpp :: "bus \<Rightarrow> world \<Rightarrow> u8 \<Rightarrow> u8 \<Rightarrow> esp_err_t \<times> world" where
  "burstfire_set_duty_cpp b w addr duty =
     (if \<not> g_initialized w then (ESP_ERR_INVALID_STATE, w)
      else if duty > 10 then (ESP_ERR_INVALID_ARG, w)
      else write_reg_cpp b w addr BURSTFIRE_REG_DUTY duty)"

definition burstfire_get_duty_cpp ::
  "bus \<Rightarrow> world \<Rightarrow> u8 \<Rightarrow> u8 option \<Rightarrow> esp_err_t \<times> u8 option \<times> world" where
  "burstfire_get_duty_cpp b w addr duty =
     (if \<not> g_initialized w then (ESP_ERR_INVALID_STATE, duty, w)
      else if duty = None then (ESP_ERR_INVALID_ARG, duty, w)
      else (let (ret, v, w') = read_reg_cpp b w addr BURSTFIRE_REG_DUTY (the duty)
            in (ret, Some v, w')))"

definition burstfire_set_grid_60hz_cpp :: "bus \<Rightarrow> world \<Rightarrow> u8 \<Rightarrow> bool \<Rightarrow> esp_err_t \<times> world" where
  "burstfire_set_grid_60hz_cpp b w addr is_60hz =
     (if \<not> g_initialized w then (ESP_ERR_INVALID_STATE, w)
      else write_reg_cpp b w addr BURSTFIRE_REG_GRID_HZ (if is_60hz then 1 else 0))"

definition burstfire_get_status_cpp ::
  "bus \<Rightarrow> world \<Rightarrow> u8 \<Rightarrow> u8 option \<Rightarrow> esp_err_t \<times> u8 option \<times> world" where
  "burstfire_get_status_cpp b w addr status =
     (if \<not> g_initialized w then (ESP_ERR_INVALID_STATE, status, w)
      else if status = None then (ESP_ERR_INVALID_ARG, status, w)
      else (let (ret, v, w') = read_reg_cpp b w addr BURSTFIRE_REG_STATUS (the status)
            in (ret, Some v, w')))"

definition burstfire_is_connected_cpp :: "bus \<Rightarrow> world \<Rightarrow> u8 \<Rightarrow> bool \<times> world" where
  "burstfire_is_connected_cpp b w addr =
     (if \<not> g_initialized w then (False, w)
      else (let (ret, rx, w') = i2c_call b w (I2C_master_write_to_device (g_port w) addr [] 100)
            in (ret = ESP_OK, w')))"

function scan_loop_cpp ::
  "bus \<Rightarrow> world \<Rightarrow> u8 \<Rightarrow> u8 list \<Rightarrow> u8 \<Rightarrow> (u8 list \<times> u8 \<times> world) option" where
  "scan_loop_cpp b w addr addresses count =
     (if addr \<le> 0x23 then
        (if fst (burstfire_is_connected_cpp b w addr) then
           (if unat count < length addresses
            then scan_loop_cpp b (snd (burstfire_is_connected_cpp b w addr)) (addr + 1)
                   (addresses[unat count := addr]) (count + 1)
            else None)
         else scan_loop_cpp b (snd (burstfire_is_connected_cpp b w addr)) (addr + 1) addresses count)
      else Some (addresses, count, w))"
  by pat_completeness auto
termination
proof (relation "measure (\<lambda>(b, w, addr, addresses, count). 0x24 - unat addr)")
  show "wf (measure (\<lambda>(b, w, addr, addresses, count). 0x24 - unat addr))"
    by simp
next
  fix b :: bus and w :: world and addr :: u8 and addresses :: "u8 list" and count :: u8
  assume le: "addr \<le> 0x23"
  then have "unat addr \<le> 0x23"
    by (simp add: word_le_nat_alt)
  moreover from this have "unat (addr + 1) = unat addr + 1"
    by (simp add: unat_word_ariths)
  ultimately have dec: "0x24 - unat (addr + 1) < 0x24 - unat addr"
    by simp
  show "((b, snd (burstfire_is_connected_cpp b w addr), addr + 1,
          addresses[unat count := addr], count + 1), b, w, addr, addresses, count)
        \<in> measure (\<lambda>(b, w, addr, addresses, count). 0x24 - unat addr)"
    using dec by simp
  show "((b, snd (burstfire_is_connected_cpp b w addr), addr + 1, addresses, count),
          b, w, addr, addresses, count)
        \<in> measure (\<lambda>(b, w, addr, addresses, count). 0x24 - unat addr)"
    using dec by simp
qed

declare scan_loop_cpp.simps [simp del]

definition burstfire_scan_devices_cpp ::
  "bus \<Rightarrow> world \<Rightarrow> u8 list option \<Rightarrow> u8 option
     \<Rightarrow> (esp_err_t \<times> u8 list option \<times> u8 option \<times> world) option" where
  "burstfire_scan_devices_cpp b w addresses count =
     (if \<not> g_initialized w then Some (ESP_ERR_INVALID_STATE, addresses, count, w)
      else if addresses = None \<or> count = None
           then Some (ESP_ERR_INVALID_ARG, addresses, count, w)
      else (case scan_loop_cpp b w 0x20 (the addresses) 0 of
              None \<Rightarrow> None
            | Some (addresses', count', w') \<Rightarrow>
                Some (ESP_OK, Some addresses', Some count', w')))"

definition burstfire_get_firmware_version_cpp ::
  "bus \<Rightarrow> world \<Rightarrow> u8 \<Rightarrow> u8 option \<Rightarrow> u8 option \<Rightarrow> u8 option
     \<Rightarrow> esp_err_t \<times> u8 option \<times> u8 option \<times> u8 option \<times> world" where
  "burstfire_get_firmware_version_cpp b w addr major minor patch =
     (if \<not> g_initialized w then (ESP_ERR_INVALID_STATE, major, minor, patch, w)
      else if major = None \<or> minor = None \<or> patch = None
           then (ESP_ERR_INVALID_ARG, major, minor, patch, w)
      else (let (ret, ma, w1) = read_reg_cpp b w addr BURSTFIRE_REG_FW_MAJOR (the major)
            in if ret \<noteq> ESP_OK then (ret, Some ma, minor, patch, w1)
               else (let (ret, mi, w2) = read_reg_cpp b w1 addr BURSTFIRE_REG_FW_MINOR (the minor)
                     in if ret \<noteq> ESP_OK then (ret, Some ma, Some mi, patch, w2)
                        else (let (ret, pa, w3) =
                                    read_reg_cpp b w2 addr BURSTFIRE_REG_FW_PATCH (the patch)
                              in (ret, Some ma, Some mi, Some pa, w3)))))"

definition burstfire_get_device_info_cpp ::
  "bus \<Rightarrow> world \<Rightarrow> u8 \<Rightarrow> burstfire_device_info_t option
     \<Rightarrow> esp_err_t \<times> burstfire_device_info_t option \<times> world" where
  "burstfire_get_device_info_cpp b w addr info =
     (if \<not> g_initialized w then (ESP_ERR_INVALID_STATE, info, w)
      else if info = None then (ESP_ERR_INVALID_ARG, info, w)
      else (let i1 = (the info)\<lparr>address := addr\<rparr>;
                (c, w1) = burstfire_is_connected_cpp b w addr;
                i2 = i1\<lparr>connected := c\<rparr>
            in if connected i2 then
                 (let (ret, ma, mi, pa, w2) =
                        burstfire_get_firmware_version_cpp b w1 addr
                          (Some (fw_major i2)) (Some (fw_minor i2)) (Some (fw_patch i2));
                      i3 = i2\<lparr>fw_major := the ma, fw_minor := the mi, fw_patch := the pa\<rparr>
                  in if ret \<noteq> ESP_OK then (ret, Some (i3\<lparr>connected := False\<rparr>), w2)
                     else (ESP_OK, Some i3, w2))
               else (ESP_OK, Some (i2\<lparr>fw_major := 0, fw_minor := 0, fw_patch := 0\<rparr>), w1)))"


section \<open>The public surface as one interface\<close>

text \<open>
  A call of the public API with its arguments, and what the caller sees afterwards: the
  return value and the contents of the output objects. \<open>run_c\<close> and \<open>run_cpp\<close>
  dispatch a call to the two variants; \<open>None\<close> is the undefined behaviour of a sweep
  that overruns the output array.
\<close>

datatype api_call =
    Init "burstfire_config_t option"
  | Deinit
  | Set_duty u8 u8
  | Get_duty u8 "u8 option"
  | Set_grid_60hz u8 bool
  | Get_status u8 "u8 option"
  | Is_connected u8
  | Scan_devices "u8 list option" "u8 option"
  | Get_firmware_version u8 "u8 option" "u8 option" "u8 option"
  | Get_device_info u8 "burstfire_device_info_t option"

datatype api_result =
    Ret esp_err_t
  | Ret_byte esp_err_t "u8 option"
  | Ret_bool bool
  | Ret_scan esp_err_t "u8 list option" "u8 option"
  | Ret_version esp_err_t "u8 option" "u8 option" "u8 option"
  | Ret_info esp_err_t "burstfire_device_info_t option"

fun run_c :: "bus \<Rightarrow> world \<Rightarrow> api_call \<Rightarrow> (api_result \<times> world) option" where
  "run_c b w (Init config) =
     (let (ret, w') = burstfire_init b w config in Some (Ret ret, w'))"
| "run_c b w Deinit =
     (let (ret, w') = burstfire_deinit b w in Some (Ret ret, w'))"
| "run_c b w (Set_duty addr duty) =
     (let (ret, w') = burstfire_set_duty b w addr duty in Some (Ret ret, w'))"
| "run_c b w (Get_duty addr duty) =
     (let (ret, duty', w') = burstfire_get_duty b w addr duty in Some (Ret_byte ret duty', w'))"
| "run_c b w (Set_grid_60hz addr is_60hz) =
     (let (ret, w') = burstfire_set_grid_60hz b w addr is_60hz in Some (Ret ret, w'))"
| "run_c b w (Get_status addr status) =
     (let (ret, status', w') = burstfire_get_status b w addr status
      in Some (Ret_byte ret status', w'))"
| "run_c b w (Is_connected addr) =
     (let (c, w') = burstfire_is_connected b w addr in Some (Ret_bool c, w'))"
| "run_c b w (Scan_devices addresses count) =
     (case burstfire_scan_devices b w addresses count of
        None \<Rightarrow> None
      | Some (ret, addresses', count', w') \<Rightarrow> Some (Ret_scan ret addresses' count', w'))"
| "run_c b w (Get_firmware_version addr major minor patch) =
     (let (ret, ma, mi, pa, w') = burstfire_get_firmware_version b w addr major minor patch
      in Some (Ret_version ret ma mi pa, w'))"
| "run_c b w (Get_device_info addr info) =
     (let (ret, info', w') = burstfire_get_device_info b w addr info
      in Some (Ret_info ret info', w'))"

fun run_cpp :: "bus \<Rightarrow> world \<Rightarrow> api_call \<Rightarrow> (api_result \<times> world) option" where
  "run_cpp b w (Init config) =
     (let (ret, w') = burstfire_init_cpp b w config in Some (Ret ret, w'))"
| "run_cpp b w Deinit =
     (let (ret, w') = burstfire_deinit_cpp b w in Some (Ret ret, w'))"
| "run_cpp b w (Set_duty addr duty) =
     (let (ret, w') = burstfire_set_duty_cpp b w addr duty in Some (Ret ret, w'))"
| "run_cpp b w (Get_duty addr duty) =
     (let (ret, duty', w') = burstfire_get_duty_cpp b w addr duty
      in Some (Ret_byte ret duty', w'))"
| "run_cpp b w (Set_grid_60hz addr is_60hz) =
     (let (ret, w') = burstfire_set_grid_60hz_cpp b w addr is_60hz in Some (Ret ret, w'))"
| "run_cpp b w (Get_status addr status) =
     (let (ret, status', w') = burstfire_get_status_cpp b w addr status
      in Some (Ret_byte ret status', w'))"
| "run_cpp b w (Is_connected addr) =
     (let (c, w') = burstfire_is_connected_cpp b w addr in Some (Ret_bool c, w'))"
| "run_cpp b w (Scan_devices addresses count) =
     (case burstfire_scan_devices_cpp b w addresses count of
        None \<Rightarrow> None
      | Some (ret, addresses', count', w') \<Rightarrow> Some (Ret_scan ret addresses' count', w'))"
| "run_cpp b w (Get_firmware_version addr major minor patch) =
     (let (ret, ma, mi, pa, w') = burstfire_get_firmware_version_cpp b w addr major minor patch
      in Some (Ret_version ret ma mi pa, w'))"
| "run_cpp b w (Get_device_info addr info) =
     (let (ret, info', w') = burstfire_get_device_info_cpp b w addr info
      in Some (Ret_info ret info', w'))"

section \<open>A mock bus\<close>

text \<open>
  A bus for concrete runs. Configuration and installation succeed; \<open>i2c_driver_delete\<close>
  answers \<open>del_ret\<close>; the devices at the addresses in \<open>present\<close> acknowledge; a register
  read of a present device answers the byte the table \<open>regs\<close> holds for the register, and
  times out, leaving the buffer alone, for a register the table lacks.
\<close>

definition mock_bus :: "u8 list \<Rightarrow> (u8 \<times> u8) list \<Rightarrow> esp_err_t \<Rightarrow> bus" where
  "mock_bus present regs del_ret h c =
     (case c of
        I2C_param_config p cfg \<Rightarrow> (ESP_OK, None)
      | I2C_driver_install p m rx_len tx_len flags \<Rightarrow> (ESP_OK, None)
      | I2C_driver_delete p \<Rightarrow> (del_ret, None)
      | I2C_master_write_to_device p a bytes t \<Rightarrow>
          (if a \<in> set present then (ESP_OK, None) else (ESP_FAIL, None))
      | I2C_master_write_read_device p a bytes n t \<Rightarrow>
          (if a \<in> set present then
             (case bytes of
                [cmd] \<Rightarrow> (case map_of regs (cmd AND 0x7F) of
                            Some v \<Rightarrow> (ESP_OK, Some v)
                          | None \<Rightarrow> (ESP_ERR_TIMEOUT, None))
              | _ \<Rightarrow> (ESP_FAIL, None))
           else (ESP_FAIL, None)))"

definition cfg0 :: burstfire_config_t where
  "cfg0 = \<lparr>port = 0, sda_pin = 21, scl_pin = 22, clk_speed = 100000\<rparr>"

definition info0 :: burstfire_device_info_t where
  "info0 = \<lparr>address = 0, fw_major = 0, fw_minor = 0, fw_patch = 0, connected = False\<rparr>"

text \<open>A session that \<open>burstfire_init\<close> has opened on port 0, with an empty call log.\<close>

definition world1 :: world where
  "world1 = \<lparr>g_initialized = True, g_port = 0, bus_log = []\<rparr>"

section \<open>The calls behind each helper\<close>

lemma i2c_call_eq:
  "i2c_call b w c =
     (fst (b (bus_log w) c), snd (b (bus_log w) c), w\<lparr>bus_log := bus_log w @ [c]\<rparr>)"
  by (simp add: i2c_call_def)

lemma write_reg_eq:
  "write_reg b w addr reg val =
     (fst (b (bus_log w) (I2C_master_write_to_device (g_port w) addr [reg, val] 100)),
      w\<lparr>bus_log := bus_log w @ [I2C_master_write_to_device (g_port w) addr [reg, val] 100]\<rparr>)"
  by (simp add: write_reg_def i2c_call_def Let_def)

lemma read_reg_eq:
  "read_reg b w addr reg val =
     (fst (b (bus_log w) (I2C_master_write_read_device (g_port w) addr [0x80 OR reg] 1 100)),
      store_rx (snd (b (bus_log w)
                  (I2C_master_write_read_device (g_port w) addr [0x80 OR reg] 1 100))) val,
      w\<lparr>bus_log := bus_log w @
           [I2C_master_write_read_device (g_port w) addr [0x80 OR reg] 1 100]\<rparr>)"
  by (simp add: read_reg_def i2c_call_def Let_def)

lemma is_connected_eq:
  "burstfire_is_connected b w addr =
     (if \<not> g_initialized w then (False, w)
      else (fst (b (bus_log w) (I2C_master_write_to_device (g_port w) addr [] 100)) = ESP_OK,
            w\<lparr>bus_log := bus_log w @ [I2C_master_write_to_device (g_port w) addr [] 100]\<rparr>))"
  by (simp add: burstfire_is_connected_def i2c_call_def Let_def)

lemma deinit_eq:
  "burstfire_deinit b w =
     (if \<not> g_initialized w then (ESP_ERR_INVALID_STATE, w)
      else (fst (b (bus_log w) (I2C_driver_delete (g_port w))),
            w\<lparr>g_initialized := False, bus_log := bus_log w @ [I2C_driver_delete (g_port w)]\<rparr>))"
  by (simp add: burstfire_deinit_def i2c_call_def Let_def)

lemma read_cmd_bits:
  "bit (0x80 OR (reg::u8)) 7 \<and> take_bit 7 (0x80 OR reg) = take_bit 7 reg"
proof
  show "bit (0x80 OR reg) 7"
    by (simp add: bit_simps)
  show "take_bit 7 (0x80 OR reg) = take_bit 7 reg"
    by (rule bit_eqI) (auto simp: bit_simps)
qed

section \<open>Duty cycle\<close>

text \<open>
  C1 (as amended). The state guard comes before the argument guard. On an uninitialised
  session \<open>burstfire_set_duty\<close> returns invalid-state for every duty, 11 included. On an
  initialised session a duty above 10 returns invalid-argument and leaves the bus alone,
  whatever the bus would answer; a duty of at most 10 makes one write of
  \<open>[BURSTFIRE_REG_DUTY, duty]\<close> and returns the bus's answer. So the call succeeds iff
  the session is initialised, the duty is at most 10 and that write succeeds.
\<close>

theorem set_duty_outcomes:
  "(\<not> g_initialized w \<longrightarrow> burstfire_set_duty b w addr d = (ESP_ERR_INVALID_STATE, w))
   \<and> (g_initialized w \<and> d > 10 \<longrightarrow> burstfire_set_duty b w addr d = (ESP_ERR_INVALID_ARG, w))
   \<and> (g_initialized w \<and> d \<le> 10 \<longrightarrow>
        burstfire_set_duty b w addr d =
          (fst (b (bus_log w)
                 (I2C_master_write_to_device (g_port w) addr [BURSTFIRE_REG_DUTY, d] 100)),
           w\<lparr>bus_log := bus_log w @
                [I2C_master_write_to_device (g_port w) addr [BURSTFIRE_REG_DUTY, d] 100]\<rparr>))
   \<and> (fst (burstfire_set_duty b w addr d) = ESP_OK \<longleftrightarrow>
        g_initialized w \<and> d \<le> 10 \<and>
        fst (b (bus_log w)
              (I2C_master_write_to_device (g_port w) addr [BURSTFIRE_REG_DUTY, d] 100)) = ESP_OK)"
  by (auto simp: burstfire_set_duty_def write_reg_eq esp_err_defs)

text \<open>
  The amended statement at work: duty 11 before and after initialisation, duty 5 to a
  device that acknowledges and to one that does not.
\<close>

theorem set_duty_outcomes_witness:
  "burstfire_set_duty (mock_bus [0x20] [] ESP_OK) world0 0x20 11 = (ESP_ERR_INVALID_STATE, world0)
   \<and> burstfire_set_duty (mock_bus [0x20] [] ESP_OK) world1 0x20 11 = (ESP_ERR_INVALID_ARG, world1)
   \<and> burstfire_set_duty (mock_bus [0x20] [] ESP_OK) world1 0x20 5 =
       (ESP_OK, world1\<lparr>bus_log := [I2C_master_write_to_device 0 0x20 [0, 5] 100]\<rparr>)
   \<and> fst (burstfire_set_duty (mock_bus [0x20] [] ESP_OK) world1 0x21 5) \<noteq> ESP_OK"
  using set_duty_outcomes [of world0 "mock_bus [0x20] [] ESP_OK" "0x20" 11]
        set_duty_outcomes [of world1 "mock_bus [0x20] [] ESP_OK" "0x20" 11]
        set_duty_outcomes [of world1 "mock_bus [0x20] [] ESP_OK" "0x20" 5]
        set_duty_outcomes [of world1 "mock_bus [0x20] [] ESP_OK" "0x21" 5]
  by (simp add: world0_def world1_def mock_bus_def esp_err_defs reg_defs)

text \<open>
  C1 as stated fails: before initialisation duty 11 is answered with invalid-state, not
  invalid-argument, and duty 5, which is in range, does not succeed.
\<close>

theorem set_duty_uninitialized_counterexample:
  "burstfire_set_duty (mock_bus [0x20] [] ESP_OK) world0 0x20 11 = (ESP_ERR_INVALID_STATE, world0)
   \<and> ESP_ERR_INVALID_STATE \<noteq> ESP_ERR_INVALID_ARG
   \<and> fst (burstfire_set_duty (mock_bus [0x20] [] ESP_OK) world0 0x20 5) \<noteq> ESP_OK"
  by (simp add: burstfire_set_duty_def world0_def esp_err_defs)

section \<open>Wire format\<close>

text \<open>
  C5. A register write is one call of the write primitive that sends exactly the two
  bytes \<open>[reg, val]\<close> to the target address, and its result is the primitive's. A register
  read is one call of the combined write-then-read primitive to the same address that
  sends exactly the one byte \<open>0x80 | reg\<close> (bit 7 set, the low seven bits those of the
  register) and reads one byte back into the caller's object.
\<close>

theorem register_wire_format:
  "write_reg b w addr reg val =
     (fst (b (bus_log w) (I2C_master_write_to_device (g_port w) addr [reg, val] 100)),
      w\<lparr>bus_log := bus_log w @ [I2C_master_write_to_device (g_port w) addr [reg, val] 100]\<rparr>)
   \<and> read_reg b w addr reg v =
     (fst (b (bus_log w) (I2C_master_write_read_device (g_port w) addr [0x80 OR reg] 1 100)),
      store_rx (snd (b (bus_log w)
                  (I2C_master_write_read_device (g_port w) addr [0x80 OR reg] 1 100))) v,
      w\<lparr>bus_log := bus_log w @
           [I2C_master_write_read_device (g_port w) addr [0x80 OR reg] 1 100]\<rparr>)
   \<and> bit (0x80 OR reg) 7 \<and> take_bit 7 (0x80 OR reg) = take_bit 7 reg"
  using read_cmd_bits [of reg] by (simp add: write_reg_eq read_reg_eq)

section \<open>The state guard\<close>

text \<open>
  C2. On an uninitialised session every device operation that returns \<open>esp_err_t\<close>
  (set and get duty, set grid frequency, get status, scan, get firmware version, get
  device info, and \<open>burstfire_deinit\<close> itself) returns invalid-state and leaves the world
  as it was: no bus call is logged and no output object is touched. The session is
  uninitialised at program start and after any \<open>burstfire_deinit\<close>, so a second
  consecutive \<open>burstfire_deinit\<close> returns invalid-state as well.
\<close>

theorem uninitialized_fails_fast:
  "(\<not> g_initialized w \<longrightarrow>
      burstfire_set_duty b w addr duty = (ESP_ERR_INVALID_STATE, w)
    \<and> burstfire_get_duty b w addr out = (ESP_ERR_INVALID_STATE, out, w)
    \<and> burstfire_set_grid_60hz b w addr is_60hz = (ESP_ERR_INVALID_STATE, w)
    \<and> burstfire_get_status b w addr out = (ESP_ERR_INVALID_STATE, out, w)
    \<and> burstfire_scan_devices b w addresses count =
        Some (ESP_ERR_INVALID_STATE, addresses, count, w)
    \<and> burstfire_get_firmware_version b w addr major minor patch =
        (ESP_ERR_INVALID_STATE, major, minor, patch, w)
    \<and> burstfire_get_device_info b w addr info = (ESP_ERR_INVALID_STATE, info, w)
    \<and> burstfire_deinit b w = (ESP_ERR_INVALID_STATE, w))
   \<and> \<not> g_initialized world0
   \<and> \<not> g_initialized (snd (burstfire_deinit b w))
   \<and> burstfire_deinit b (snd (burstfire_deinit b w)) =
       (ESP_ERR_INVALID_STATE, snd (burstfire_deinit b w))
   \<and> ESP_ERR_INVALID_STATE \<noteq> ESP_OK"
  by (simp add: burstfire_set_duty_def burstfire_get_duty_def burstfire_set_grid_60hz_def
      burstfire_get_status_def burstfire_scan_devices_def burstfire_get_firmware_version_def
      burstfire_get_device_info_def deinit_eq world0_def esp_err_defs)

text \<open>
  Before initialisation nothing reaches the bus; and after a shutdown whose bus teardown
  failed, the next shutdown fails with invalid-state, the log holding the one teardown.
\<close>

theorem uninitialized_fails_fast_witness:
  "burstfire_set_duty (mock_bus [0x20] [] ESP_OK) world0 0x20 5 = (ESP_ERR_INVALID_STATE, world0)
   \<and> burstfire_get_device_info (mock_bus [0x20] [] ESP_OK) world0 0x20 (Some info0) =
       (ESP_ERR_INVALID_STATE, Some info0, world0)
   \<and> burstfire_scan_devices (mock_bus [0x20] [] ESP_OK) world0 (Some [0, 0, 0, 0]) (Some 0) =
       Some (ESP_ERR_INVALID_STATE, Some [0, 0, 0, 0], Some 0, world0)
   \<and> bus_log world0 = []
   \<and> burstfire_deinit (mock_bus [0x20] [] ESP_FAIL)
        (snd (burstfire_deinit (mock_bus [0x20] [] ESP_FAIL) world1)) =
       (ESP_ERR_INVALID_STATE, world1\<lparr>g_initialized := False, bus_log := [I2C_driver_delete 0]\<rparr>)"
  using uninitialized_fails_fast [of world0 "mock_bus [0x20] [] ESP_OK" "0x20" 5 None False
          "Some [0, 0, 0, 0]" "Some 0" None None None "Some info0"]
        uninitialized_fails_fast [of world1 "mock_bus [0x20] [] ESP_FAIL"]
  by (simp add: world0_def world1_def deinit_eq)

section \<open>Firmware version\<close>

lemma get_firmware_version_eq:
  assumes "g_initialized w"
  shows "burstfire_get_firmware_version b w addr (Some ma) (Some mi) (Some pa) =
     (let c1 = I2C_master_write_read_device (g_port w) addr [0x80 OR BURSTFIRE_REG_FW_MAJOR] 1 100;
          c2 = I2C_master_write_read_device (g_port w) addr [0x80 OR BURSTFIRE_REG_FW_MINOR] 1 100;
          c3 = I2C_master_write_read_device (g_port w) addr [0x80 OR BURSTFIRE_REG_FW_PATCH] 1 100;
          r1 = b (bus_log w) c1;
          r2 = b (bus_log w @ [c1]) c2;
          r3 = b (bus_log w @ [c1, c2]) c3
      in if fst r1 \<noteq> ESP_OK
         then (fst r1, Some (store_rx (snd r1) ma), Some mi, Some pa,
               w\<lparr>bus_log := bus_log w @ [c1]\<rparr>)
         else if fst r2 \<noteq> ESP_OK
         then (fst r2, Some (store_rx (snd r1) ma), Some (store_rx (snd r2) mi), Some pa,
               w\<lparr>bus_log := bus_log w @ [c1, c2]\<rparr>)
         else (fst r3, Some (store_rx (snd r1) ma), Some (store_rx (snd r2) mi),
               Some (store_rx (snd r3) pa), w\<lparr>bus_log := bus_log w @ [c1, c2, c3]\<rparr>))"
  using assms by (simp add: burstfire_get_firmware_version_def read_reg_eq Let_def)

text \<open>
  C6. With the session initialised and three non-null outputs,
  \<open>burstfire_get_firmware_version\<close> reads the major register, then the minor, then the
  patch register. It stops at the first read that does not return \<open>ESP_OK\<close> and returns
  that read's code; the outputs of the registers it has not read hold what they held
  before the call, and no call for them reaches the bus. When all three reads are made
  it returns the code of the patch read.
\<close>

theorem get_firmware_version_order:
  assumes "g_initialized w"
  shows "let c1 = I2C_master_write_read_device (g_port w) addr [0x80 OR BURSTFIRE_REG_FW_MAJOR] 1 100;
             c2 = I2C_master_write_read_device (g_port w) addr [0x80 OR BURSTFIRE_REG_FW_MINOR] 1 100;
             c3 = I2C_master_write_read_device (g_port w) addr [0x80 OR BURSTFIRE_REG_FW_PATCH] 1 100;
             r1 = b (bus_log w) c1;
             r2 = b (bus_log w @ [c1]) c2;
             r3 = b (bus_log w @ [c1, c2]) c3
         in (fst r1 \<noteq> ESP_OK \<longrightarrow>
               burstfire_get_firmware_version b w addr (Some ma) (Some mi) (Some pa) =
                 (fst r1, Some (store_rx (snd r1) ma), Some mi, Some pa,
                  w\<lparr>bus_log := bus_log w @ [c1]\<rparr>))
          \<and> (fst r1 = ESP_OK \<and> fst r2 \<noteq> ESP_OK \<longrightarrow>
               burstfire_get_firmware_version b w addr (Some ma) (Some mi) (Some pa) =
                 (fst r2, Some (store_rx (snd r1) ma), Some (store_rx (snd r2) mi), Some pa,
                  w\<lparr>bus_log := bus_log w @ [c1, c2]\<rparr>))
          \<and> (fst r1 = ESP_OK \<and> fst r2 = ESP_OK \<longrightarrow>
               burstfire_get_firmware_version b w addr (Some ma) (Some mi) (Some pa) =
                 (fst r3, Some (store_rx (snd r1) ma), Some (store_rx (snd r2) mi),
                  Some (store_rx (snd r3) pa), w\<lparr>bus_log := bus_log w @ [c1, c2, c3]\<rparr>))"
  using assms by (simp add: get_firmware_version_eq Let_def)

text \<open>
  A device at 0x21 that answers the major register with 7 and times out on the minor
  register: the call returns the timeout after two reads, the major output holds 7, the
  minor and patch outputs still hold 2 and 3.
\<close>

theorem get_firmware_version_order_witness:
  "g_initialized world1
   \<and> burstfire_get_firmware_version (mock_bus [0x21] [(0x10, 7)] ESP_OK) world1 0x21
        (Some 1) (Some 2) (Some 3) =
       (ESP_ERR_TIMEOUT, Some 7, Some 2, Some 3,
        world1\<lparr>bus_log := [I2C_master_write_read_device 0 0x21 [0x90] 1 100,
                            I2C_master_write_read_device 0 0x21 [0x91] 1 100]\<rparr>)"
  using get_firmware_version_order [where w = world1 and addr = "0x21"
          and b = "mock_bus [0x21] [(0x10, 7)] ESP_OK" and ma = 1 and mi = 2 and pa = 3]
  by (simp add: world1_def mock_bus_def esp_err_defs reg_defs Let_def)

section \<open>Device information\<close>

lemma device_info_no_ack_eq:
  assumes "g_initialized w"
    and "fst (b (bus_log w) (I2C_master_write_to_device (g_port w) addr [] 100)) \<noteq> ESP_OK"
  shows "burstfire_get_device_info b w addr (Some info) =
     (ESP_OK, Some (info\<lparr>address := addr, connected := False, fw_major := 0, fw_minor := 0, fw_patch := 0\<rparr>),
      w\<lparr>bus_log := bus_log w @ [I2C_master_write_to_device (g_port w) addr [] 100]\<rparr>)"
  using assms by (simp add: burstfire_get_device_info_def is_connected_eq Let_def)

lemma device_info_ack_eq:
  assumes "g_initialized w"
    and "fst (b (bus_log w) (I2C_master_write_to_device (g_port w) addr [] 100)) = ESP_OK"
  shows "burstfire_get_device_info b w addr (Some info) =
     (let c0 = I2C_master_write_to_device (g_port w) addr [] 100;
          c1 = I2C_master_write_read_device (g_port w) addr [0x80 OR BURSTFIRE_REG_FW_MAJOR] 1 100;
          c2 = I2C_master_write_read_device (g_port w) addr [0x80 OR BURSTFIRE_REG_FW_MINOR] 1 100;
          c3 = I2C_master_write_read_device (g_port w) addr [0x80 OR BURSTFIRE_REG_FW_PATCH] 1 100;
          r1 = b (bus_log w @ [c0]) c1;
          r2 = b (bus_log w @ [c0, c1]) c2;
          r3 = b (bus_log w @ [c0, c1, c2]) c3
      in if fst r1 \<noteq> ESP_OK
         then (fst r1,
               Some \<lparr>address = addr, fw_major = store_rx (snd r1) (fw_major info),
                     fw_minor = fw_minor info, fw_patch = fw_patch info, connected = False\<rparr>,
               w\<lparr>bus_log := bus_log w @ [c0, c1]\<rparr>)
         else if fst r2 \<noteq> ESP_OK
         then (fst r2,
               Some \<lparr>address = addr, fw_major = store_rx (snd r1) (fw_major info),
                     fw_minor = store_rx (snd r2) (fw_minor info), fw_patch = fw_patch info,
                     connected = False\<rparr>,
               w\<lparr>bus_log := bus_log w @ [c0, c1, c2]\<rparr>)
         else if fst r3 \<noteq> ESP_OK
         then (fst r3,
               Some \<lparr>address = addr, fw_major = store_rx (snd r1) (fw_major info),
                     fw_minor = store_rx (snd r2) (fw_minor info),
                     fw_patch = store_rx (snd r3) (fw_patch info), connected = False\<rparr>,
               w\<lparr>bus_log := bus_log w @ [c0, c1, c2, c3]\<rparr>)
         else (ESP_OK,
               Some \<lparr>address = addr, fw_major = store_rx (snd r1) (fw_major info),
                     fw_minor = store_rx (snd r2) (fw_minor info),
                     fw_patch = store_rx (snd r3) (fw_patch info), connected = True\<rparr>,
               w\<lparr>bus_log := bus_log w @ [c0, c1, c2, c3]\<rparr>))"
  using assms
  by (simp add: burstfire_get_device_info_def is_connected_eq get_firmware_version_eq Let_def)



text \<open>
  C7. With the session initialised and a non-null snapshot, when the presence probe of
  \<open>addr\<close> is not acknowledged \<open>burstfire_get_device_info\<close> returns \<open>ESP_OK\<close> with
  \<open>connected = false\<close> and the firmware triple (0, 0, 0), and the probe is the only call
  that reaches the bus.
\<close>

theorem get_device_info_absent_device:
  assumes "g_initialized w"
    and "fst (b (bus_log w) (I2C_master_write_to_device (g_port w) addr [] 100)) \<noteq> ESP_OK"
  shows "burstfire_get_device_info b w addr (Some info) =
     (ESP_OK,
      Some \<lparr>address = addr, fw_major = 0, fw_minor = 0, fw_patch = 0, connected = False\<rparr>,
      w\<lparr>bus_log := bus_log w @ [I2C_master_write_to_device (g_port w) addr [] 100]\<rparr>)"
  using assms by (simp add: device_info_no_ack_eq)

text \<open>
  No device at 0x22: a snapshot full of stale values comes back zeroed, after one probe.
\<close>

theorem get_device_info_absent_device_witness:
  "g_initialized world1
   \<and> fst (mock_bus [0x21] [(0x10, 7)] ESP_OK (bus_log world1)
            (I2C_master_write_to_device (g_port world1) 0x22 [] 100)) \<noteq> ESP_OK
   \<and> burstfire_get_device_info (mock_bus [0x21] [(0x10, 7)] ESP_OK) world1 0x22
        (Some \<lparr>address = 9, fw_major = 8, fw_minor = 7, fw_patch = 6, connected = True\<rparr>) =
       (ESP_OK,
        Some \<lparr>address = 0x22, fw_major = 0, fw_minor = 0, fw_patch = 0, connected = False\<rparr>,
        world1\<lparr>bus_log := [I2C_master_write_to_device 0 0x22 [] 100]\<rparr>)"
  using get_device_info_absent_device [where w = world1 and addr = "0x22"
          and b = "mock_bus [0x21] [(0x10, 7)] ESP_OK"
          and info = "\<lparr>address = 9, fw_major = 8, fw_minor = 7, fw_patch = 6, connected = True\<rparr>"]
  by (simp add: world1_def mock_bus_def esp_err_defs)

text \<open>
  C4 (as amended). With the session initialised, a non-null snapshot and an acknowledged
  probe, when one of the three firmware reads fails \<open>burstfire_get_device_info\<close> returns
  the code of the first failing read, with \<open>connected = false\<close> and the address set. The
  version fields of the registers after the failing one are as they were before the
  call; the fields of the registers read before it hold the bytes read; the field of the
  failing register holds what the bus primitive left in the buffer, which is the prior
  value when the primitive leaves the buffer alone on failure.
\<close>

theorem get_device_info_failed_read:
  assumes "g_initialized w"
    and "fst (b (bus_log w) (I2C_master_write_to_device (g_port w) addr [] 100)) = ESP_OK"
  shows "let c0 = I2C_master_write_to_device (g_port w) addr [] 100;
             c1 = I2C_master_write_read_device (g_port w) addr [0x80 OR BURSTFIRE_REG_FW_MAJOR] 1 100;
             c2 = I2C_master_write_read_device (g_port w) addr [0x80 OR BURSTFIRE_REG_FW_MINOR] 1 100;
             c3 = I2C_master_write_read_device (g_port w) addr [0x80 OR BURSTFIRE_REG_FW_PATCH] 1 100;
             r1 = b (bus_log w @ [c0]) c1;
             r2 = b (bus_log w @ [c0, c1]) c2;
             r3 = b (bus_log w @ [c0, c1, c2]) c3
         in (fst r1 \<noteq> ESP_OK \<longrightarrow>
               burstfire_get_device_info b w addr (Some info) =
                 (fst r1,
                  Some \<lparr>address = addr, fw_major = store_rx (snd r1) (fw_major info),
                        fw_minor = fw_minor info, fw_patch = fw_patch info, connected = False\<rparr>,
                  w\<lparr>bus_log := bus_log w @ [c0, c1]\<rparr>))
          \<and> (fst r1 = ESP_OK \<and> fst r2 \<noteq> ESP_OK \<longrightarrow>
               burstfire_get_device_info b w addr (Some info) =
                 (fst r2,
                  Some \<lparr>address = addr, fw_major = store_rx (snd r1) (fw_major info),
                        fw_minor = store_rx (snd r2) (fw_minor info), fw_patch = fw_patch info,
                        connected = False\<rparr>,
                  w\<lparr>bus_log := bus_log w @ [c0, c1, c2]\<rparr>))
          \<and> (fst r1 = ESP_OK \<and> fst r2 = ESP_OK \<and> fst r3 \<noteq> ESP_OK \<longrightarrow>
               burstfire_get_device_info b w addr (Some info) =
                 (fst r3,
                  Some \<lparr>address = addr, fw_major = store_rx (snd r1) (fw_major info),
                        fw_minor = store_rx (snd r2) (fw_minor info),
                        fw_patch = store_rx (snd r3) (fw_patch info), connected = False\<rparr>,
                  w\<lparr>bus_log := bus_log w @ [c0, c1, c2, c3]\<rparr>))"
  using assms by (simp add: device_info_ack_eq Let_def)

text \<open>
  A device at 0x21 that acknowledges and times out on the major register: the three
  version fields come back as they went in.
\<close>

theorem get_device_info_failed_read_witness:
  "g_initialized world1
   \<and> fst (mock_bus [0x21] [] ESP_OK (bus_log world1)
            (I2C_master_write_to_device (g_port world1) 0x21 [] 100)) = ESP_OK
   \<and> burstfire_get_device_info (mock_bus [0x21] [] ESP_OK) world1 0x21
        (Some \<lparr>address = 9, fw_major = 8, fw_minor = 7, fw_patch = 6, connected = False\<rparr>) =
       (ESP_ERR_TIMEOUT,
        Some \<lparr>address = 0x21, fw_major = 8, fw_minor = 7, fw_patch = 6, connected = False\<rparr>,
        world1\<lparr>bus_log := [I2C_master_write_to_device 0 0x21 [] 100,
                            I2C_master_write_read_device 0 0x21 [0x90] 1 100]\<rparr>)"
  using get_device_info_failed_read [where w = world1 and addr = "0x21"
          and b = "mock_bus [0x21] [] ESP_OK"
          and info = "\<lparr>address = 9, fw_major = 8, fw_minor = 7, fw_patch = 6, connected = False\<rparr>"]
  by (simp add: world1_def mock_bus_def esp_err_defs reg_defs Let_def)

text \<open>
  C4 as stated fails: the device at 0x21 acknowledges, answers the major register with 7
  and times out on the minor register. The firmware read fails, and the snapshot's major
  field, 0 before the call, is 7 after it.
\<close>

theorem get_device_info_failed_read_counterexample:
  "g_initialized world1
   \<and> fst (mock_bus [0x21] [(0x10, 7)] ESP_OK (bus_log world1)
            (I2C_master_write_to_device (g_port world1) 0x21 [] 100)) = ESP_OK
   \<and> fst (burstfire_get_firmware_version (mock_bus [0x21] [(0x10, 7)] ESP_OK)
            (snd (burstfire_is_connected (mock_bus [0x21] [(0x10, 7)] ESP_OK) world1 0x21)) 0x21
            (Some 0) (Some 0) (Some 0)) \<noteq> ESP_OK
   \<and> burstfire_get_device_info (mock_bus [0x21] [(0x10, 7)] ESP_OK) world1 0x21 (Some info0) =
       (ESP_ERR_TIMEOUT,
        Some \<lparr>address = 0x21, fw_major = 7, fw_minor = 0, fw_patch = 0, connected = False\<rparr>,
        world1\<lparr>bus_log := [I2C_master_write_to_device 0 0x21 [] 100,
                            I2C_master_write_read_device 0 0x21 [0x90] 1 100,
                            I2C_master_write_read_device 0 0x21 [0x91] 1 100]\<rparr>)
   \<and> fw_major info0 = 0"
  by (simp add: world1_def info0_def mock_bus_def esp_err_defs reg_defs Let_def
      device_info_ack_eq get_firmware_version_eq is_connected_eq)

section \<open>Device discovery\<close>

lemma scan_loop_step:
  assumes "addr \<le> 0x23" and "g_initialized w"
  shows "scan_loop b w addr arr c =
     (if fst (b (bus_log w) (I2C_master_write_to_device (g_port w) addr [] 100)) = ESP_OK
      then (if unat c < length arr
            then scan_loop b
                   (w\<lparr>bus_log := bus_log w @
                         [I2C_master_write_to_device (g_port w) addr [] 100]\<rparr>)
                   (addr + 1) (arr[unat c := addr]) (c + 1)
            else None)
      else scan_loop b
             (w\<lparr>bus_log := bus_log w @ [I2C_master_write_to_device (g_port w) addr [] 100]\<rparr>)
             (addr + 1) arr c)"
  using assms by (subst scan_loop.simps) (simp add: is_connected_eq)

lemma scan_loop_done:
  "\<not> addr \<le> 0x23 \<Longrightarrow> scan_loop b w addr arr c = Some (arr, c, w)"
  by (subst scan_loop.simps) simp

lemma list_upto4:
  fixes arr :: "'a list"
  obtains "arr = []" | x0 where "arr = [x0]" | x0 x1 where "arr = [x0, x1]"
    | x0 x1 x2 where "arr = [x0, x1, x2]"
    | x0 x1 x2 x3 rest where "arr = x0 # x1 # x2 # x3 # rest"
  by (cases arr; simp; cases "tl arr"; simp; cases "tl (tl arr)"; simp;
      cases "tl (tl (tl arr))"; simp)

text \<open>
  C3. Let the session be initialised, the output pointers non-null, and let \<open>ack\<close> say
  which of the addresses 0x20 to 0x23 acknowledge the presence probe; the array has room
  for the acknowledging addresses (the four entries the interface asks for always do).
  Then \<open>burstfire_scan_devices\<close> probes
  0x20, 0x21, 0x22, 0x23 in this order and nothing else, whatever the probes answer;
  the front of the array holds exactly the acknowledging addresses in ascending order,
  the rest of the array is untouched, the count is their number, and the result is
  \<open>ESP_OK\<close>. A probe that fails, with whatever code, only leaves its address out.
\<close>

theorem scan_devices_sweep:
  assumes init: "g_initialized w"
    and cap: "length (filter ack [0x20, 0x21, 0x22, 0x23]) \<le> length arr"
    and ack: "\<forall>h. \<forall>a \<in> set [0x20, 0x21, 0x22, 0x23].
               (fst (b h (I2C_master_write_to_device (g_port w) a [] 100)) = ESP_OK) = ack a"
  shows "burstfire_scan_devices b w (Some arr) (Some c) =
     Some (ESP_OK,
           Some (filter ack [0x20, 0x21, 0x22, 0x23]
                 @ drop (length (filter ack [0x20, 0x21, 0x22, 0x23])) arr),
           Some (of_nat (length (filter ack [0x20, 0x21, 0x22, 0x23]))),
           w\<lparr>bus_log := bus_log w @
                map (\<lambda>a. I2C_master_write_to_device (g_port w) a [] 100)
                  [0x20, 0x21, 0x22, 0x23]\<rparr>)"
proof -
  have k:
    "\<And>h. (fst (b h (I2C_master_write_to_device (g_port w) 0x20 [] 100)) = ESP_OK) = ack 0x20"
    "\<And>h. (fst (b h (I2C_master_write_to_device (g_port w) 0x21 [] 100)) = ESP_OK) = ack 0x21"
    "\<And>h. (fst (b h (I2C_master_write_to_device (g_port w) 0x22 [] 100)) = ESP_OK) = ack 0x22"
    "\<And>h. (fst (b h (I2C_master_write_to_device (g_port w) 0x23 [] 100)) = ESP_OK) = ack 0x23"
    using ack by simp_all
  show ?thesis
    using init cap
    by (cases arr rule: list_upto4)
       (simp_all add: burstfire_scan_devices_def scan_loop_step scan_loop_done k
          split: if_splits)
qed

text \<open>
  Only 0x21 and 0x23 acknowledge: the array starts with 0x21, 0x23, the count is 2, and
  all four addresses were probed.
\<close>

theorem scan_devices_sweep_witness:
  "g_initialized world1
   \<and> burstfire_scan_devices (mock_bus [0x21, 0x23] [] ESP_OK) world1
        (Some [0, 0, 0, 0]) (Some 9) =
       Some (ESP_OK, Some [0x21, 0x23, 0, 0], Some 2,
             world1\<lparr>bus_log := [I2C_master_write_to_device 0 0x20 [] 100,
                                 I2C_master_write_to_device 0 0x21 [] 100,
                                 I2C_master_write_to_device 0 0x22 [] 100,
                                 I2C_master_write_to_device 0 0x23 [] 100]\<rparr>)"
proof -
  have init: "g_initialized world1"
    by (simp add: world1_def)
  have cap: "length (filter (\<lambda>a. a \<in> set [0x21, 0x23]) [0x20, 0x21, 0x22, 0x23 :: u8])
      \<le> length [0, 0, 0, 0 :: u8]"
    by simp
  have ack: "\<forall>h. \<forall>a \<in> set [0x20, 0x21, 0x22, 0x23].
      (fst (mock_bus [0x21, 0x23] [] ESP_OK h
              (I2C_master_write_to_device (g_port world1) a [] 100)) = ESP_OK)
      = (a \<in> set [0x21, 0x23])"
    by (simp add: mock_bus_def esp_err_defs)
  show ?thesis
    using scan_devices_sweep [OF init cap ack, of 9] init
    by (simp add: world1_def)
qed

section \<open>Initialisation\<close>

lemma init_eq:
  "burstfire_init b w (Some cfg) =
     (let pc = I2C_param_config (port cfg)
                 \<lparr>mode = I2C_MODE_MASTER, sda_io_num = sda_pin cfg, scl_io_num = scl_pin cfg,
                  sda_pullup_en = GPIO_PULLUP_ENABLE, scl_pullup_en = GPIO_PULLUP_ENABLE,
                  master_clk_speed = clk_speed cfg\<rparr>;
          di = I2C_driver_install (port cfg) I2C_MODE_MASTER 0 0 0;
          r1 = fst (b (bus_log w) pc);
          r2 = fst (b (bus_log w @ [pc]) di)
      in if r1 \<noteq> ESP_OK then (r1, w\<lparr>bus_log := bus_log w @ [pc]\<rparr>)
         else if r2 \<noteq> ESP_OK then (r2, w\<lparr>bus_log := bus_log w @ [pc, di]\<rparr>)
         else (ESP_OK, w\<lparr>g_initialized := True, g_port := port cfg,
                           bus_log := bus_log w @ [pc, di]\<rparr>))"
  by (simp add: burstfire_init_def i2c_call_def Let_def)

text \<open>
  C9 (as amended). With a null configuration \<open>burstfire_init\<close> returns invalid-argument
  and touches nothing. With a configuration it calls \<open>i2c_param_config\<close> and, when that
  succeeds, \<open>i2c_driver_install\<close> on the configured port, whether or not a session is
  already initialised: there is no guard against a second initialisation. When both
  calls succeed it stores the port, sets the flag and returns \<open>ESP_OK\<close>; when one fails
  it returns that call's code, which the bus chooses, and leaves flag and port alone.
\<close>

theorem init_outcomes:
  "burstfire_init b w None = (ESP_ERR_INVALID_ARG, w)
   \<and> (let pc = I2C_param_config (port cfg)
                 \<lparr>mode = I2C_MODE_MASTER, sda_io_num = sda_pin cfg, scl_io_num = scl_pin cfg,
                  sda_pullup_en = GPIO_PULLUP_ENABLE, scl_pullup_en = GPIO_PULLUP_ENABLE,
                  master_clk_speed = clk_speed cfg\<rparr>;
            di = I2C_driver_install (port cfg) I2C_MODE_MASTER 0 0 0;
            r1 = fst (b (bus_log w) pc);
            r2 = fst (b (bus_log w @ [pc]) di)
        in (r1 \<noteq> ESP_OK \<longrightarrow>
              burstfire_init b w (Some cfg) = (r1, w\<lparr>bus_log := bus_log w @ [pc]\<rparr>))
         \<and> (r1 = ESP_OK \<and> r2 \<noteq> ESP_OK \<longrightarrow>
              burstfire_init b w (Some cfg) = (r2, w\<lparr>bus_log := bus_log w @ [pc, di]\<rparr>))
         \<and> (r1 = ESP_OK \<and> r2 = ESP_OK \<longrightarrow>
              burstfire_init b w (Some cfg) =
                (ESP_OK, w\<lparr>g_initialized := True, g_port := port cfg,
                           bus_log := bus_log w @ [pc, di]\<rparr>)))"
  by (simp add: init_eq Let_def) (simp add: burstfire_init_def)

text \<open>
  A null configuration before initialisation, and the first initialisation on port 0.
\<close>

theorem init_outcomes_witness:
  "burstfire_init (mock_bus [] [] ESP_OK) world0 None = (ESP_ERR_INVALID_ARG, world0)
   \<and> burstfire_init (mock_bus [] [] ESP_OK) world0 (Some cfg0) =
       (ESP_OK,
        \<lparr>g_initialized = True, g_port = 0,
         bus_log = [I2C_param_config 0
                      \<lparr>mode = I2C_MODE_MASTER, sda_io_num = 21, scl_io_num = 22,
                       sda_pullup_en = GPIO_PULLUP_ENABLE, scl_pullup_en = GPIO_PULLUP_ENABLE,
                       master_clk_speed = 100000\<rparr>,
                    I2C_driver_install 0 I2C_MODE_MASTER 0 0 0]\<rparr>)"
  using init_outcomes [where b = "mock_bus [] [] ESP_OK" and w = world0 and cfg = cfg0]
  by (simp add: world0_def cfg0_def mock_bus_def esp_err_defs Let_def)

text \<open>
  C9 as stated fails: a second \<open>burstfire_init\<close> on the session the first one opened
  configures and installs the bus driver a second time.
\<close>

theorem init_twice_counterexample:
  "g_initialized (snd (burstfire_init (mock_bus [] [] ESP_OK) world0 (Some cfg0)))
   \<and> bus_log (snd (burstfire_init (mock_bus [] [] ESP_OK) world0 (Some cfg0))) =
       [I2C_param_config 0
          \<lparr>mode = I2C_MODE_MASTER, sda_io_num = 21, scl_io_num = 22,
           sda_pullup_en = GPIO_PULLUP_ENABLE, scl_pullup_en = GPIO_PULLUP_ENABLE,
           master_clk_speed = 100000\<rparr>,
        I2C_driver_install 0 I2C_MODE_MASTER 0 0 0]
   \<and> burstfire_init (mock_bus [] [] ESP_OK)
        (snd (burstfire_init (mock_bus [] [] ESP_OK) world0 (Some cfg0))) (Some cfg0) =
       (ESP_OK,
        \<lparr>g_initialized = True, g_port = 0,
         bus_log = [I2C_param_config 0
                      \<lparr>mode = I2C_MODE_MASTER, sda_io_num = 21, scl_io_num = 22,
                       sda_pullup_en = GPIO_PULLUP_ENABLE, scl_pullup_en = GPIO_PULLUP_ENABLE,
                       master_clk_speed = 100000\<rparr>,
                    I2C_driver_install 0 I2C_MODE_MASTER 0 0 0,
                    I2C_param_config 0
                      \<lparr>mode = I2C_MODE_MASTER, sda_io_num = 21, scl_io_num = 22,
                       sda_pullup_en = GPIO_PULLUP_ENABLE, scl_pullup_en = GPIO_PULLUP_ENABLE,
                       master_clk_speed = 100000\<rparr>,
                    I2C_driver_install 0 I2C_MODE_MASTER 0 0 0]\<rparr>)"
  by (simp add: init_eq Let_def world0_def cfg0_def mock_bus_def esp_err_defs)

section \<open>The two variants compared\<close>

lemma write_reg_cpp_eq: "write_reg_cpp = write_reg"
  by (intro ext) (simp add: write_reg_cpp_def write_reg_def)

lemma read_reg_cpp_eq: "read_reg_cpp = read_reg"
  by (intro ext) (simp add: read_reg_cpp_def read_reg_def)

lemma init_cpp_eq: "burstfire_init_cpp = burstfire_init"
  by (intro ext) (simp add: burstfire_init_cpp_def burstfire_init_def)

lemma set_duty_cpp_eq: "burstfire_set_duty_cpp = burstfire_set_duty"
  by (intro ext) (simp add: burstfire_set_duty_cpp_def burstfire_set_duty_def write_reg_cpp_eq)

lemma get_duty_cpp_eq: "burstfire_get_duty_cpp = burstfire_get_duty"
  by (intro ext) (simp add: burstfire_get_duty_cpp_def burstfire_get_duty_def read_reg_cpp_eq)

lemma set_grid_60hz_cpp_eq: "burstfire_set_grid_60hz_cpp = burstfire_set_grid_60hz"
  by (intro ext)
    (simp add: burstfire_set_grid_60hz_cpp_def burstfire_set_grid_60hz_def write_reg_cpp_eq)

lemma get_status_cpp_eq: "burstfire_get_status_cpp = burstfire_get_status"
  by (intro ext) (simp add: burstfire_get_status_cpp_def burstfire_get_status_def read_reg_cpp_eq)

lemma is_connected_cpp_eq: "burstfire_is_connected_cpp = burstfire_is_connected"
  by (intro ext) (simp add: burstfire_is_connected_cpp_def burstfire_is_connected_def)

lemma scan_loop_cpp_eq: "scan_loop_cpp b w addr arr c = scan_loop b w addr arr c"
proof (induction b w addr arr c rule: scan_loop.induct)
  case (1 b w addr addresses count)
  show ?case
    by (subst scan_loop_cpp.simps, subst scan_loop.simps)
       (simp add: is_connected_cpp_eq "1.IH")
qed

lemma scan_devices_cpp_eq: "burstfire_scan_devices_cpp = burstfire_scan_devices"
  by (intro ext)
    (simp add: burstfire_scan_devices_cpp_def burstfire_scan_devices_def scan_loop_cpp_eq)

lemma get_firmware_version_cpp_eq:
  "burstfire_get_firmware_version_cpp = burstfire_get_firmware_version"
  unfolding fun_eq_iff burstfire_get_firmware_version_cpp_def
    burstfire_get_firmware_version_def read_reg_cpp_eq
  by simp

lemma get_device_info_cpp_eq: "burstfire_get_device_info_cpp = burstfire_get_device_info"
  unfolding fun_eq_iff burstfire_get_device_info_cpp_def burstfire_get_device_info_def
    is_connected_cpp_eq get_firmware_version_cpp_eq
  by simp

lemma deinit_cpp_eq:
  "burstfire_deinit_cpp b w =
     (if \<not> g_initialized w then (ESP_ERR_INVALID_STATE, w)
      else if fst (b (bus_log w) (I2C_driver_delete (g_port w))) \<noteq> ESP_OK
      then (fst (b (bus_log w) (I2C_driver_delete (g_port w))),
            w\<lparr>bus_log := bus_log w @ [I2C_driver_delete (g_port w)]\<rparr>)
      else (ESP_OK,
            w\<lparr>g_initialized := False, bus_log := bus_log w @ [I2C_driver_delete (g_port w)]\<rparr>))"
  by (simp add: burstfire_deinit_cpp_def i2c_call_def Let_def)

lemma run_cpp_eq: "call \<noteq> Deinit \<Longrightarrow> run_cpp b w call = run_c b w call"
  by (cases call)
    (simp_all add: init_cpp_eq set_duty_cpp_eq get_duty_cpp_eq set_grid_60hz_cpp_eq
      get_status_cpp_eq is_connected_cpp_eq scan_devices_cpp_eq get_firmware_version_cpp_eq
      get_device_info_cpp_eq)

lemma world_flag_neq: "g_initialized w \<Longrightarrow> w\<lparr>bus_log := l\<rparr> \<noteq> w\<lparr>g_initialized := False, bus_log := l\<rparr>"
proof
  assume i: "g_initialized w" and e: "w\<lparr>bus_log := l\<rparr> = w\<lparr>g_initialized := False, bus_log := l\<rparr>"
  from e have "g_initialized (w\<lparr>bus_log := l\<rparr>) = g_initialized (w\<lparr>g_initialized := False, bus_log := l\<rparr>)"
    by simp
  with i show False by simp
qed

text \<open>
  C8 (as amended). For every public operation other than \<open>burstfire_deinit\<close> and every
  input, the C file and the ESP-IDF branch of the C++ file return the same result, leave
  the same outputs and session state and make the same bus calls. For \<open>burstfire_deinit\<close>
  they agree exactly when the session is uninitialised or \<open>i2c_driver_delete\<close> succeeds.
  On an initialised session both make the one call \<open>i2c_driver_delete\<close> on the stored
  port and return its code, and neither ever changes the stored port. When the teardown
  fails, both therefore return its error code and keep the port, but the C file clears
  the initialised flag and the C++ file leaves it set.
\<close>

theorem variants_agree:
  "(call \<noteq> Deinit \<longrightarrow> run_cpp b w call = run_c b w call)
   \<and> (run_cpp b w Deinit = run_c b w Deinit \<longleftrightarrow>
        (g_initialized w \<longrightarrow> fst (b (bus_log w) (I2C_driver_delete (g_port w))) = ESP_OK))
   \<and> fst (burstfire_deinit_cpp b w) = fst (burstfire_deinit b w)
   \<and> g_port (snd (burstfire_deinit_cpp b w)) = g_port (snd (burstfire_deinit b w))
   \<and> bus_log (snd (burstfire_deinit_cpp b w)) = bus_log (snd (burstfire_deinit b w))
   \<and> (g_initialized w \<and> fst (b (bus_log w) (I2C_driver_delete (g_port w))) \<noteq> ESP_OK \<longrightarrow>
        g_initialized (snd (burstfire_deinit_cpp b w))
        \<and> \<not> g_initialized (snd (burstfire_deinit b w)))
   \<and> g_port (snd (burstfire_deinit b w)) = g_port w
   \<and> g_port (snd (burstfire_deinit_cpp b w)) = g_port w
   \<and> (g_initialized w \<longrightarrow>
        fst (burstfire_deinit b w) = fst (b (bus_log w) (I2C_driver_delete (g_port w)))
        \<and> fst (burstfire_deinit_cpp b w) = fst (b (bus_log w) (I2C_driver_delete (g_port w)))
        \<and> bus_log (snd (burstfire_deinit b w)) = bus_log w @ [I2C_driver_delete (g_port w)]
        \<and> bus_log (snd (burstfire_deinit_cpp b w)) = bus_log w @ [I2C_driver_delete (g_port w)])
   \<and> (g_initialized w \<and> fst (b (bus_log w) (I2C_driver_delete (g_port w))) \<noteq> ESP_OK \<longrightarrow>
        burstfire_deinit b w =
          (fst (b (bus_log w) (I2C_driver_delete (g_port w))),
           w\<lparr>g_initialized := False, bus_log := bus_log w @ [I2C_driver_delete (g_port w)]\<rparr>)
        \<and> burstfire_deinit_cpp b w =
          (fst (b (bus_log w) (I2C_driver_delete (g_port w))),
           w\<lparr>bus_log := bus_log w @ [I2C_driver_delete (g_port w)]\<rparr>))"
proof (intro conjI)
  show "call \<noteq> Deinit \<longrightarrow> run_cpp b w call = run_c b w call"
    by (simp add: run_cpp_eq)
  show "run_cpp b w Deinit = run_c b w Deinit \<longleftrightarrow>
        (g_initialized w \<longrightarrow> fst (b (bus_log w) (I2C_driver_delete (g_port w))) = ESP_OK)"
    by (auto simp: deinit_cpp_eq deinit_eq world_flag_neq)
qed (simp_all add: deinit_cpp_eq deinit_eq)

text \<open>
  Setting a duty and a successful shutdown agree in both variants; after a failed
  teardown the C++ session is still initialised and the C session is not, and a teardown
  that times out hands the timeout to the caller of either variant, port 0 kept.
\<close>

theorem variants_agree_witness:
  "run_cpp (mock_bus [0x21] [] ESP_OK) world1 (Set_duty 0x21 5) =
     Some (Ret ESP_OK, world1\<lparr>bus_log := [I2C_master_write_to_device 0 0x21 [0, 5] 100]\<rparr>)
   \<and> run_cpp (mock_bus [0x21] [] ESP_OK) world1 Deinit =
       run_c (mock_bus [0x21] [] ESP_OK) world1 Deinit
   \<and> g_initialized (snd (burstfire_deinit_cpp (mock_bus [0x21] [] ESP_FAIL) world1))
   \<and> \<not> g_initialized (snd (burstfire_deinit (mock_bus [0x21] [] ESP_FAIL) world1))
   \<and> burstfire_deinit (mock_bus [0x21] [] ESP_ERR_TIMEOUT) world1 =
       (ESP_ERR_TIMEOUT,
        \<lparr>g_initialized = False, g_port = 0, bus_log = [I2C_driver_delete 0]\<rparr>)
   \<and> burstfire_deinit_cpp (mock_bus [0x21] [] ESP_ERR_TIMEOUT) world1 =
       (ESP_ERR_TIMEOUT,
        \<lparr>g_initialized = True, g_port = 0, bus_log = [I2C_driver_delete 0]\<rparr>)"
  using variants_agree [where call = "Set_duty 0x21 5" and b = "mock_bus [0x21] [] ESP_OK"
          and w = world1]
        variants_agree [where call = "Deinit" and b = "mock_bus [0x21] [] ESP_FAIL"
          and w = world1]
        variants_agree [where call = "Deinit" and b = "mock_bus [0x21] [] ESP_ERR_TIMEOUT"
          and w = world1]
  by (simp add: world1_def mock_bus_def esp_err_defs reg_defs set_duty_cpp_eq
      burstfire_set_duty_def write_reg_eq deinit_cpp_eq deinit_eq)

text \<open>
  C8 as stated fails: on an initialised session whose bus teardown answers \<open>ESP_FAIL\<close>,
  both variants return \<open>ESP_FAIL\<close>, the C file with the flag cleared, the C++ file with the
  flag still set.
\<close>

theorem deinit_variants_counterexample:
  "run_c (mock_bus [] [] ESP_FAIL) world1 Deinit =
     Some (Ret ESP_FAIL, \<lparr>g_initialized = False, g_port = 0, bus_log = [I2C_driver_delete 0]\<rparr>)
   \<and> run_cpp (mock_bus [] [] ESP_FAIL) world1 Deinit =
     Some (Ret ESP_FAIL, \<lparr>g_initialized = True, g_port = 0, bus_log = [I2C_driver_delete 0]\<rparr>)
   \<and> run_c (mock_bus [] [] ESP_FAIL) world1 Deinit \<noteq> run_cpp (mock_bus [] [] ESP_FAIL) world1 Deinit"
  by (simp add: world1_def mock_bus_def esp_err_defs deinit_cpp_eq deinit_eq)

end
